theory Spec2Isabelle
  imports Main "HOL-Library.AList"
begin

section \<open>Keys, values and key-value stores\<close>

text \<open>
  The migrations work on datastores: key-value stores whose keys are strings and whose
  values are byte strings. A store is an association list; it denotes the map
  \<open>map_of s\<close>, \<open>Put\<close> overwrites, \<open>Delete\<close> of an absent key changes nothing, and a
  query lists every key once, in the order of the list (the source relies on no
  particular order).
\<close>

type_synonym key = string
type_synonym val = "nat list"
type_synonym store = "(key \<times> val) list"

datatype err =
    LockError
  | VersionMismatch string string
  | StoreOpenError
  | StatError
  | BackupOpenError
  | QueryError
  | NotFound key
  | GetError key
  | PutError key
  | DeleteError key
  | KeyMapError key
  | VersionWriteError
  | CloseError
  | MkdirError
  | RemoveError
  | RenameError
  | SliceBoundsPanic

text \<open>
  What the datastore library and the operating system do is not decided by the
  migration code. The record \<open>dsenv\<close> holds the part of that environment the datastore
  calls depend on: the key constructor \<open>NewKey\<close> of the datastore library (it
  normalises a string into a key), and which calls fail with an I/O error.
\<close>

record dsenv =
  new_key :: "string \<Rightarrow> key"
  query_fails :: bool
  get_fails :: "key \<Rightarrow> bool"
  put_fails :: "key \<Rightarrow> bool"
  delete_fails :: "key \<Rightarrow> bool"

definition has_prefix :: "string \<Rightarrow> string \<Rightarrow> bool" where
  "has_prefix p k = (take (length p) k = p)"

definition ds_query :: "'a dsenv_scheme \<Rightarrow> store \<Rightarrow> string \<Rightarrow> err + key list" where
  "ds_query e s p =
     (if query_fails e then Inl QueryError
      else Inr (remdups (filter (has_prefix p) (map fst s))))"

definition ds_get :: "'a dsenv_scheme \<Rightarrow> store \<Rightarrow> key \<Rightarrow> err + val" where
  "ds_get e s k =
     (if get_fails e k then Inl (GetError k)
      else case map_of s k of None \<Rightarrow> Inl (NotFound k) | Some v \<Rightarrow> Inr v)"

definition ds_put :: "'a dsenv_scheme \<Rightarrow> store \<Rightarrow> key \<Rightarrow> val \<Rightarrow> err + store" where
  "ds_put e s k v =
     (if put_fails e k then Inl (PutError k) else Inr (AList.update k v s))"

definition ds_delete :: "'a dsenv_scheme \<Rightarrow> store \<Rightarrow> key \<Rightarrow> err + store" where
  "ds_delete e s k =
     (if delete_fails e k then Inl (DeleteError k) else Inr (AList.delete k s))"

section \<open>The 1-to-2 migration: bulk transfer between two stores\<close>

text \<open>
  \<open>transferBlocks(from, to, fpref, tpref)\<close> queries the keys of \<open>from\<close> under \<open>fpref\<close>
  and, for each result key, computes \<open>nkey = tpref + key[len(fpref):]\<close>, gets the value
  at \<open>NewKey(key)\<close> from \<open>from\<close>, puts it at \<open>NewKey(nkey)\<close> into \<open>to\<close> and deletes
  \<open>NewKey(key)\<close> from \<open>from\<close>. The first error ends the loop and is returned; what was
  moved before stays moved. The slice \<open>key[len(fpref):]\<close> panics when the key is
  shorter than the prefix.
\<close>

fun transfer_loop ::
  "'a dsenv_scheme \<Rightarrow> string \<Rightarrow> string \<Rightarrow> string list \<Rightarrow> store \<Rightarrow> store
     \<Rightarrow> err option \<times> store \<times> store" where
  "transfer_loop e fpref tpref [] src dst = (None, src, dst)"
| "transfer_loop e fpref tpref (rk # rest) src dst =
     (if length rk < length fpref then (Some SliceBoundsPanic, src, dst)
      else
        let nkey = tpref @ drop (length fpref) rk;
            fkey = new_key e rk
        in case ds_get e src fkey of
             Inl er \<Rightarrow> (Some er, src, dst)
           | Inr v \<Rightarrow>
               (case ds_put e dst (new_key e nkey) v of
                  Inl er \<Rightarrow> (Some er, src, dst)
                | Inr dst' \<Rightarrow>
                    (case ds_delete e src fkey of
                       Inl er \<Rightarrow> (Some er, src, dst')
                     | Inr src' \<Rightarrow> transfer_loop e fpref tpref rest src' dst')))"

definition transferBlocks ::
  "'a dsenv_scheme \<Rightarrow> store \<Rightarrow> store \<Rightarrow> string \<Rightarrow> string \<Rightarrow> err option \<times> store \<times> store" where
  "transferBlocks e src dst fpref tpref =
     (case ds_query e src fpref of
        Inl er \<Rightarrow> (Some er, src, dst)
      | Inr keys \<Rightarrow> transfer_loop e fpref tpref keys src dst)"

section \<open>Version marker and event trace\<close>

text \<open>
  Every state of a repository carries the persisted version marker and the trace of the
  calls the running step has made so far. The trace is what orders lock, version check,
  transform and version write against each other.
\<close>

datatype event =
    EvLock
  | EvUnlock
  | EvCheckVersion string
  | EvOpenStore
  | EvCloseStore
  | EvStat
  | EvOpenBackup
  | EvRun
  | EvAwaitWriter
  | EvWriteVersion string
  | EvFlush
  | EvCloseBackup
  | EvRevert
  | EvRemoveBackup
  | EvSanityChecks
  | EvTransfer
  | EvMoveDir

record base =
  version :: string
  trace :: "event list"

definition ev :: "event \<Rightarrow> 'a base_scheme \<Rightarrow> 'a base_scheme" where
  "ev x st = st\<lparr>trace := trace st @ [x]\<rparr>"

record menv = dsenv +
  write_version_fails :: bool
  torn_version :: string

text \<open>
  Modelled from the spec: \<open>RepoPath.CheckVersion\<close> of the package \<open>mfsr\<close> is not
  among the sources. The spec gives \<open>CheckVersion(expected)\<close> as an error if the
  persisted version differs.
\<close>

definition CheckVersion :: "string \<Rightarrow> 'a base_scheme \<Rightarrow> err option" where
  "CheckVersion expected st =
     (if version st \<noteq> expected then Some (VersionMismatch expected (version st)) else None)"

text \<open>
  Modelled from the spec: \<open>RepoPath.WriteVersion\<close> of the package \<open>mfsr\<close> is not
  among the sources. The spec gives \<open>WriteVersion(value)\<close> as overwriting the marker,
  possibly with an error. What the marker holds after a failed write is not specified;
  it is the environment's \<open>torn_version\<close>.
\<close>

definition WriteVersion ::
  "'e menv_scheme \<Rightarrow> string \<Rightarrow> 'a base_scheme \<Rightarrow> err option \<times> 'a base_scheme" where
  "WriteVersion e v st =
     (if write_version_fails e then (Some VersionWriteError, st\<lparr>version := torn_version e\<rparr>)
      else (None, st\<lparr>version := v\<rparr>))"

section \<open>The 1-to-2 migration step\<close>

text \<open>
  The repository of the 1-to-2 step lives in the directory \<open>repo_path\<close>; it holds the
  version marker, the leveldb datastore \<open>ldb\<close> and the flatfs datastore \<open>flat\<close> of its
  \<open>blocks\<close> directory. \<open>Apply\<close> checks the version, runs the sanity checks, transfers
  the blocks from leveldb to flatfs, renames the directory and writes the version. The
  step takes no lock. Operating-system calls fail when the environment says so;
  \<open>os.Mkdir\<close> of the sanity check also fails when the new path is the repository itself.
\<close>

record state1 = base +
  repo_path :: string
  ldb :: store
  flat :: store

record env1 = menv +
  mkdir_fails :: bool
  rmdir_fails :: bool
  ldb_open_fails :: bool
  mkdir_blocks_fails :: bool
  flatfs_new_fails :: bool
  rename_fails :: bool
  remove_all_fails :: bool

fun replace_first :: "string \<Rightarrow> string \<Rightarrow> string \<Rightarrow> string" where
  "replace_first old new [] = (if old = [] then new else [])"
| "replace_first old new (c # cs) =
     (if has_prefix old (c # cs) then new @ drop (length old) (c # cs)
      else c # replace_first old new cs)"

definition sanityChecks :: "env1 \<Rightarrow> state1 \<Rightarrow> err option" where
  "sanityChecks e st =
     (let npath = replace_first ''.go-ipfs'' ''.ipfs'' (repo_path st)
      in if mkdir_fails e \<or> npath = repo_path st then Some MkdirError
         else if rmdir_fails e then Some RemoveError
         else None)"

definition transferBlocksToFlatDB :: "env1 \<Rightarrow> state1 \<Rightarrow> err option \<times> state1" where
  "transferBlocksToFlatDB e st =
     (if ldb_open_fails e then (Some StoreOpenError, st)
      else if mkdir_blocks_fails e then (Some MkdirError, st)
      else if flatfs_new_fails e then (Some StoreOpenError, st)
      else case transferBlocks e (ldb st) (flat st) ''/b/'' [] of
             (r, l', f') \<Rightarrow> (r, st\<lparr>ldb := l', flat := f'\<rparr>))"

definition transferBlocksFromFlatDB :: "env1 \<Rightarrow> state1 \<Rightarrow> err option \<times> state1" where
  "transferBlocksFromFlatDB e st =
     (if flatfs_new_fails e then (Some StoreOpenError, st)
      else if ldb_open_fails e then (Some StoreOpenError, st)
      else case transferBlocks e (flat st) (ldb st) [] ''/b/'' of
             (Some er, f', l') \<Rightarrow> (Some er, st\<lparr>ldb := l', flat := f'\<rparr>)
           | (None, f', l') \<Rightarrow>
               (if remove_all_fails e then (Some RemoveError, st\<lparr>ldb := l', flat := f'\<rparr>)
                else (None, st\<lparr>ldb := l', flat := []\<rparr>)))"

definition moveIpfsDir :: "env1 \<Rightarrow> state1 \<Rightarrow> err option \<times> state1" where
  "moveIpfsDir e st =
     (let newpath = replace_first ''.go-ipfs'' ''.ipfs'' (repo_path st)
      in if rename_fails e then (Some RenameError, st)
         else (None, st\<lparr>repo_path := newpath\<rparr>))"

definition reverseIpfsDir :: "env1 \<Rightarrow> state1 \<Rightarrow> err option \<times> state1" where
  "reverseIpfsDir e st =
     (let newpath = replace_first ''.ipfs'' ''.go-ipfs'' (repo_path st)
      in if rename_fails e then (Some RenameError, st)
         else (None, st\<lparr>repo_path := newpath\<rparr>))"

definition Apply1 :: "env1 \<Rightarrow> state1 \<Rightarrow> err option \<times> state1" where
  "Apply1 e st0 =
     (let st1 = ev (EvCheckVersion ''1'') (st0\<lparr>trace := []\<rparr>)
      in case CheckVersion ''1'' st1 of
           Some er \<Rightarrow> (Some er, st1)
         | None \<Rightarrow>
             (let st2 = ev EvSanityChecks st1
              in case sanityChecks e st2 of
                   Some er \<Rightarrow> (Some er, st2)
                 | None \<Rightarrow>
                     (case transferBlocksToFlatDB e (ev EvTransfer st2) of
                        (Some er, st3) \<Rightarrow> (Some er, st3)
                      | (None, st3) \<Rightarrow>
                          (case moveIpfsDir e (ev EvMoveDir st3) of
                             (Some er, st4) \<Rightarrow> (Some er, st4)
                           | (None, st4) \<Rightarrow> WriteVersion e ''2'' (ev (EvWriteVersion ''2'') st4)))))"

definition Revert1 :: "env1 \<Rightarrow> state1 \<Rightarrow> err option \<times> state1" where
  "Revert1 e st0 =
     (let st1 = ev (EvCheckVersion ''2'') (st0\<lparr>trace := []\<rparr>)
      in case CheckVersion ''2'' st1 of
           Some er \<Rightarrow> (Some er, st1)
         | None \<Rightarrow>
             (case reverseIpfsDir e (ev EvMoveDir st1) of
                (Some er, st2) \<Rightarrow> (Some er, st2)
              | (None, st2) \<Rightarrow>
                  (case transferBlocksFromFlatDB e (ev EvTransfer st2) of
                     (Some er, st3) \<Rightarrow> (Some er, st3)
                   | (None, st3) \<Rightarrow> WriteVersion e ''1'' (ev (EvWriteVersion ''1'') st3))))"

section \<open>The backup file: buffered writing, line scanning, splitting\<close>

text \<open>
  \<open>Apply\<close> of the 8-to-9 step writes the backup file through a \<open>bufio.Writer\<close> of the
  default size, 4096 bytes. A write that does not fit the free space goes to the file
  directly when the buffer is empty; otherwise it fills the buffer, the buffer is
  flushed, and the rest is written the same way. What fits stays in the buffer until
  the next overflow or \<open>Flush\<close>. The pair is (bytes in the file, bytes in the buffer).
  Writes to the opened file are taken to succeed: the source ignores their errors.
\<close>

definition bufSize :: nat where
  "bufSize = 4096"

function bufio_Write :: "string \<times> string \<Rightarrow> string \<Rightarrow> string \<times> string" where
  "bufio_Write (file, buf) p =
     (if length p > bufSize - length buf then
        (if buf = [] then (file @ p, [])
         else let n = bufSize - length buf
              in bufio_Write (file @ buf @ take n p, []) (drop n p))
      else (file, buf @ p))"
  by pat_completeness auto
termination
  by (relation "measure (\<lambda>((file, buf), p). 2 * length p + (if buf = [] then 0 else 1))") auto

definition bufio_Flush :: "string \<times> string \<Rightarrow> string \<times> string" where
  "bufio_Flush fb = (fst fb @ snd fb, [])"

text \<open>
  \<open>Revert\<close> reads the file through a \<open>bufio.Scanner\<close> with the default split function
  \<open>ScanLines\<close>: the data is cut at each newline, a trailing carriage return is dropped
  from each line, and a last line without newline is returned when it is not empty.
\<close>

definition dropCR :: "string \<Rightarrow> string" where
  "dropCR l = (if l \<noteq> [] \<and> last l = CHR 0x0D then butlast l else l)"

fun scan_acc :: "string \<Rightarrow> string \<Rightarrow> string list" where
  "scan_acc acc [] = (if acc = [] then [] else [dropCR acc])"
| "scan_acc acc (c # cs) =
     (if c = CHR 0x0A then dropCR acc # scan_acc [] cs else scan_acc (acc @ [c]) cs)"

definition ScanLines :: "string \<Rightarrow> string list" where
  "ScanLines data = scan_acc [] data"

text \<open>\<open>strings.Split(s, sep)\<close> for a separator of one character.\<close>

fun split_on :: "char \<Rightarrow> string \<Rightarrow> string list" where
  "split_on c [] = [[]]"
| "split_on c (x # xs) =
     (if x = c then [] # split_on c xs
      else case split_on c xs of [] \<Rightarrow> [[x]] | y # ys \<Rightarrow> (x # y) # ys)"

section \<open>The 8-to-9 migration step\<close>

record Swap =
  Old :: key
  New :: key

datatype logmsg =
    LogError err
  | LogBackupExists
  | LogBadLine string
  | LogScanError
  | LogVersionWriteFailed
  | LogCloseFailed
  | LogRemoveFailed

text \<open>
  The state of an 8-to-9 repository: the version marker, the datastore as seen through
  the \<open>/blocks\<close> namespace wrapper, the contents of the backup file
  \<open>8-to-9-cids.txt\<close> (\<open>None\<close> when there is no such file), and, for the running step,
  whether it holds the repo lock, the bytes in its \<open>bufio.Writer\<close>, its trace and what
  it logged as error or warning. Every call of \<open>Apply\<close> or \<open>Revert\<close> is a run of its
  own: it starts without the lock, with an empty buffer, an empty trace and an empty
  log. Of the log, the calls of \<open>log.Error\<close> and the warning about an existing backup
  file are modelled, the informational lines are not.
\<close>

record state8 = base +
  blocks :: store
  backup :: "string option"
  held :: bool
  wbuf :: string
  logs :: "logmsg list"

text \<open>
  The environment of the step: the mapping \<open>key_map\<close> from an old key to its new key
  (\<open>None\<close> is its error), and the calls that fail. \<open>lock_busy\<close>: another process holds
  the lock. \<open>stat_fails\<close>: \<open>os.Stat\<close> fails with an error other than "does not exist".
  \<open>writer_drained\<close>: how many of the emitted swap records the writer goroutine has
  printed when \<open>Apply\<close> returns early on an error of the swapper, without waiting for
  it. \<open>read_error = Some n\<close>: reading the backup file fails after \<open>n\<close> bytes; the
  scanner then splits the bytes it has as if the file ended there, stops, and reports
  the error (a line too long for the scanner stops it the same way, at the start of that
  line).
\<close>

record env8 = menv +
  key_map :: "key \<Rightarrow> key option"
  lock_busy :: bool
  open_fails :: bool
  stat_fails :: bool
  open_backup_fails :: bool
  writer_drained :: nat
  read_error :: "nat option"
  close_backup_fails :: bool
  remove_fails :: bool

definition logmsg :: "logmsg \<Rightarrow> state8 \<Rightarrow> state8" where
  "logmsg m st = st\<lparr>logs := logs st @ [m]\<rparr>"

subsection \<open>The key swapper\<close>

text \<open>
  Modelled from the spec: the per-key work of \<open>CidSwapper\<close> is not among the sources.
  In the spec it reads the value at the old key, writes it under the new key and deletes
  the old key; the first of the three calls that fails ends it, with what was written
  before left in the store.
\<close>

definition swap_entry :: "'a dsenv_scheme \<Rightarrow> store \<Rightarrow> key \<Rightarrow> key \<Rightarrow> err option \<times> store" where
  "swap_entry e s old new =
     (case ds_get e s old of
        Inl er \<Rightarrow> (Some er, s)
      | Inr v \<Rightarrow>
          (case ds_put e s new v of
             Inl er \<Rightarrow> (Some er, s)
           | Inr s1 \<Rightarrow>
               (case ds_delete e s1 old of
                  Inl er \<Rightarrow> (Some er, s1)
                | Inr s2 \<Rightarrow> (None, s2))))"

text \<open>
  Modelled from the spec: the worker loop of \<open>CidSwapper.Run\<close> is not among the sources.
  For each enumerated key the spec's pipeline computes the new key, swaps the entry and
  emits the pair (old key, new key) to the backup sink; a key that the mapping leaves
  as it is stays untouched and emits nothing; an error of the mapping or of a swap
  aborts the run, with the swaps done so far left in the store. The workers are run one
  after the other, in the order of the enumeration.
\<close>

fun run_keys :: "env8 \<Rightarrow> key list \<Rightarrow> store \<Rightarrow> Swap list \<Rightarrow> err option \<times> store \<times> Swap list" where
  "run_keys e [] s out = (None, s, out)"
| "run_keys e (k # ks) s out =
     (case key_map e k of
        None \<Rightarrow> (Some (KeyMapError k), s, out)
      | Some k' \<Rightarrow>
          (if k' = k then run_keys e ks s out
           else case swap_entry e s k k' of
                  (Some er, s') \<Rightarrow> (Some er, s', out)
                | (None, s') \<Rightarrow> run_keys e ks s' (out @ [\<lparr>Old = k, New = k'\<rparr>])))"

text \<open>
  Modelled from the spec: \<open>CidSwapper.Run\<close> is not among the sources. The spec's
  pipeline enumerates every key of the namespace, keys only, and runs the per-key work
  on each.
\<close>

definition CidSwapper_Run :: "env8 \<Rightarrow> store \<Rightarrow> err option \<times> store \<times> Swap list" where
  "CidSwapper_Run e s =
     (case ds_query e s [] of
        Inl er \<Rightarrow> (Some er, s, [])
      | Inr ks \<Rightarrow> run_keys e ks s [])"

text \<open>
  Modelled from the spec: \<open>CidSwapper.Revert\<close> is not among the sources. The spec's
  \<open>Revert\<close> applies, for each record of the backup log in turn, the inverse swap: get at
  the new key, put at the old key, delete at the new key; a failing call aborts it.
\<close>

fun CidSwapper_Revert :: "'a dsenv_scheme \<Rightarrow> Swap list \<Rightarrow> store \<Rightarrow> err option \<times> store" where
  "CidSwapper_Revert e [] s = (None, s)"
| "CidSwapper_Revert e (sw # sws) s =
     (case swap_entry e s (New sw) (Old sw) of
        (Some er, s') \<Rightarrow> (Some er, s')
      | (None, s') \<Rightarrow> CidSwapper_Revert e sws s')"

subsection \<open>Deferred calls\<close>

text \<open>
  \<open>Apply\<close> and \<open>Revert\<close> register their clean-up with \<open>defer\<close>: the deferred calls run
  when the function returns, the last registered first. The body of each function is
  modelled up to its \<open>return\<close>, giving the result, the deferred calls in the order in
  which they will run, and the state at the \<open>return\<close>; the function itself is the body
  followed by the deferred calls.
\<close>

datatype deferred = DFlush | DCloseBackup | DCloseStore | DUnlock

definition file_bytes :: "state8 \<Rightarrow> string" where
  "file_bytes st = (case backup st of None \<Rightarrow> [] | Some c \<Rightarrow> c)"

fun run_deferred :: "deferred \<Rightarrow> state8 \<Rightarrow> state8" where
  "run_deferred DFlush st =
     (case bufio_Flush (file_bytes st, wbuf st) of
        (c', b') \<Rightarrow> ev EvFlush (st\<lparr>backup := Some c', wbuf := b'\<rparr>))"
| "run_deferred DCloseBackup st = ev EvCloseBackup st"
| "run_deferred DCloseStore st = ev EvCloseStore st"
| "run_deferred DUnlock st = ev EvUnlock (st\<lparr>held := False\<rparr>)"

fun run_defers :: "deferred list \<Rightarrow> state8 \<Rightarrow> state8" where
  "run_defers [] st = st"
| "run_defers (d # ds) st = run_defers ds (run_deferred d st)"

subsection \<open>Apply\<close>

definition swap_line :: "Swap \<Rightarrow> string" where
  "swap_line sw = Old sw @ '','' @ New sw @ [CHR 0x0A]"

text \<open>
  The writer goroutine prints one line per swap record into the buffered writer, in
  the order in which the records arrive.
\<close>

definition writer :: "Swap list \<Rightarrow> state8 \<Rightarrow> state8" where
  "writer sws st =
     (case foldl bufio_Write (file_bytes st, wbuf st) (map swap_line sws) of
        (c', b') \<Rightarrow> st\<lparr>backup := Some c', wbuf := b'\<rparr>)"

text \<open>
  \<open>Apply\<close>, from its last step to its first. Each definition is one stretch of the
  function, up to the next call that registers a deferred call: the version write
  after the wait for the writer; the run of the swapper with the writer goroutine
  beside it; the check for and the opening of the backup file; the opening of the
  store; the version check; the lock. The lock is \<open>lock.Lock2\<close> of the package
  \<open>repolock\<close>, which is not among the sources: it fails when another process holds the
  lock, as the spec has it.
\<close>

definition Apply_commit :: "env8 \<Rightarrow> state8 \<Rightarrow> err option \<times> state8" where
  "Apply_commit e st =
     (let st1 = ev EvAwaitWriter st;
          st2 = ev (EvWriteVersion ''9'') st1
      in case WriteVersion e ''9'' st2 of
           (Some er, st3) \<Rightarrow> (Some er, logmsg LogVersionWriteFailed st3)
         | (None, st3) \<Rightarrow> (None, st3))"

definition Apply_swap :: "env8 \<Rightarrow> state8 \<Rightarrow> err option \<times> state8" where
  "Apply_swap e st =
     (let st1 = ev EvRun st
      in case CidSwapper_Run e (blocks st1) of
           (Some er, s', emitted) \<Rightarrow>
             (Some er, logmsg (LogError er)
                         (writer (take (writer_drained e) emitted) (st1\<lparr>blocks := s'\<rparr>)))
         | (None, s', emitted) \<Rightarrow> Apply_commit e (writer emitted (st1\<lparr>blocks := s'\<rparr>)))"

definition Apply_backup :: "env8 \<Rightarrow> state8 \<Rightarrow> err option \<times> deferred list \<times> state8" where
  "Apply_backup e st =
     (let st1 = ev EvStat st
      in if stat_fails e then (Some StatError, [], logmsg (LogError StatError) st1)
         else
           let st2 = (if backup st1 \<noteq> None then logmsg LogBackupExists st1 else st1);
               st3 = ev EvOpenBackup st2
           in if open_backup_fails e
              then (Some BackupOpenError, [], logmsg (LogError BackupOpenError) st3)
              else
                let st4 = st3\<lparr>backup := Some (file_bytes st3), wbuf := []\<rparr>
                in case Apply_swap e st4 of
                     (r, st5) \<Rightarrow> (r, [DFlush, DCloseBackup], st5))"

definition Apply_open :: "env8 \<Rightarrow> state8 \<Rightarrow> err option \<times> deferred list \<times> state8" where
  "Apply_open e st =
     (let st1 = ev EvOpenStore st
      in if open_fails e then (Some StoreOpenError, [], st1)
         else case Apply_backup e st1 of
                (r, ds, st2) \<Rightarrow> (r, ds @ [DCloseStore], st2))"

definition Apply_check :: "env8 \<Rightarrow> state8 \<Rightarrow> err option \<times> deferred list \<times> state8" where
  "Apply_check e st =
     (let st1 = ev (EvCheckVersion ''8'') st
      in case CheckVersion ''8'' st1 of
           Some er \<Rightarrow> (Some er, [], st1)
         | None \<Rightarrow> Apply_open e st1)"

definition Apply_body :: "env8 \<Rightarrow> state8 \<Rightarrow> err option \<times> deferred list \<times> state8" where
  "Apply_body e st0 =
     (let st = st0\<lparr>trace := [], held := False, wbuf := [], logs := []\<rparr>
      in if lock_busy e then (Some LockError, [], st)
         else case Apply_check e (ev EvLock (st\<lparr>held := True\<rparr>)) of
                (r, ds, st') \<Rightarrow> (r, ds @ [DUnlock], st'))"

definition Apply :: "env8 \<Rightarrow> state8 \<Rightarrow> err option \<times> state8" where
  "Apply e st0 = (case Apply_body e st0 of (r, ds, st) \<Rightarrow> (r, run_defers ds st))"

subsection \<open>Revert\<close>

definition parse_line :: "'a dsenv_scheme \<Rightarrow> string \<Rightarrow> Swap option" where
  "parse_line e line =
     (let oldAndNew = split_on CHR '','' line
      in if length oldAndNew \<noteq> 2 then None
         else Some \<lparr>Old = new_key e (oldAndNew ! 0), New = new_key e (oldAndNew ! 1)\<rparr>)"

text \<open>
  The scanning goroutine: a line that does not split into two fields is logged and
  skipped, every other line becomes a swap record on the channel.
\<close>

fun scan_records :: "'a dsenv_scheme \<Rightarrow> string list \<Rightarrow> Swap list \<times> logmsg list" where
  "scan_records e [] = ([], [])"
| "scan_records e (l # ls) =
     (case scan_records e ls of
        (sws, lg) \<Rightarrow>
          (case parse_line e l of
             None \<Rightarrow> (sws, LogBadLine l # lg)
           | Some sw \<Rightarrow> (sw # sws, lg)))"

definition read_data :: "env8 \<Rightarrow> string \<Rightarrow> string" where
  "read_data e c = (case read_error e of None \<Rightarrow> c | Some n \<Rightarrow> take n c)"

definition read_fails :: "env8 \<Rightarrow> string \<Rightarrow> bool" where
  "read_fails e c = (case read_error e of None \<Rightarrow> False | Some n \<Rightarrow> n \<le> length c)"

text \<open>
  \<open>Revert\<close>, from its last step to its first: the version write, the close and the
  removal of the backup file; the scan of the file and the run of the swapper on its
  records; the opening of the backup file; the opening of the store; the version check;
  the lock. The backup file is not closed on the paths that return an error before the
  close.
\<close>

definition Revert_commit :: "env8 \<Rightarrow> state8 \<Rightarrow> err option \<times> state8" where
  "Revert_commit e st =
     (let st1 = ev (EvWriteVersion ''8'') st
      in case WriteVersion e ''8'' st1 of
           (Some er, st2) \<Rightarrow> (Some er, logmsg LogVersionWriteFailed st2)
         | (None, st2) \<Rightarrow>
             (let st3 = ev EvCloseBackup st2
              in if close_backup_fails e then (Some CloseError, logmsg LogCloseFailed st3)
                 else
                   let st4 = ev EvRemoveBackup st3
                   in if remove_fails e then (None, logmsg LogRemoveFailed st4)
                      else (None, st4\<lparr>backup := None\<rparr>)))"

definition Revert_swaps :: "env8 \<Rightarrow> string \<Rightarrow> state8 \<Rightarrow> err option \<times> state8" where
  "Revert_swaps e c st =
     (case scan_records e (ScanLines (read_data e c)) of
        (sws, lg) \<Rightarrow>
          (let st1 = st\<lparr>logs := logs st @ lg @ (if read_fails e c then [LogScanError] else [])\<rparr>;
               st2 = ev EvRevert st1
           in case CidSwapper_Revert e sws (blocks st2) of
                (Some er, s') \<Rightarrow> (Some er, logmsg (LogError er) (st2\<lparr>blocks := s'\<rparr>))
              | (None, s') \<Rightarrow> Revert_commit e (st2\<lparr>blocks := s'\<rparr>)))"

definition Revert_backup :: "env8 \<Rightarrow> state8 \<Rightarrow> err option \<times> state8" where
  "Revert_backup e st =
     (let st1 = ev EvOpenBackup st
      in case backup st1 of
           None \<Rightarrow> (Some BackupOpenError, logmsg (LogError BackupOpenError) st1)
         | Some c \<Rightarrow>
             (if open_backup_fails e
              then (Some BackupOpenError, logmsg (LogError BackupOpenError) st1)
              else Revert_swaps e c st1))"

definition Revert_open :: "env8 \<Rightarrow> state8 \<Rightarrow> err option \<times> deferred list \<times> state8" where
  "Revert_open e st =
     (let st1 = ev EvOpenStore st
      in if open_fails e then (Some StoreOpenError, [], st1)
         else case Revert_backup e st1 of
                (r, st2) \<Rightarrow> (r, [DCloseStore], st2))"

definition Revert_check :: "env8 \<Rightarrow> state8 \<Rightarrow> err option \<times> deferred list \<times> state8" where
  "Revert_check e st =
     (let st1 = ev (EvCheckVersion ''9'') st
      in case CheckVersion ''9'' st1 of
           Some er \<Rightarrow> (Some er, [], st1)
         | None \<Rightarrow> Revert_open e st1)"

definition Revert_body :: "env8 \<Rightarrow> state8 \<Rightarrow> err option \<times> deferred list \<times> state8" where
  "Revert_body e st0 =
     (let st = st0\<lparr>trace := [], held := False, wbuf := [], logs := []\<rparr>
      in if lock_busy e then (Some LockError, [], st)
         else case Revert_check e (ev EvLock (st\<lparr>held := True\<rparr>)) of
                (r, ds, st') \<Rightarrow> (r, ds @ [DUnlock], st'))"

definition Revert :: "env8 \<Rightarrow> state8 \<Rightarrow> err option \<times> state8" where
  "Revert e st0 = (case Revert_body e st0 of (r, ds, st) \<Rightarrow> (r, run_defers ds st))"

section \<open>Concrete repositories and environments\<close>

text \<open>
  The runs below are evaluated on these. \<open>clean_key\<close> is the key constructor of the
  datastore library: the path is made rooted and cleaned (empty and \<open>.\<close> elements
  dropped, \<open>..\<close> resolved). \<open>to_multihash\<close> maps a key \<open>/v1-x\<close> to \<open>/mh-x\<close> and
  leaves every other key as it is.
\<close>

fun clean_elems :: "string list \<Rightarrow> string list \<Rightarrow> string list" where
  "clean_elems st [] = rev st"
| "clean_elems st (x # xs) =
     (if x = [] \<or> x = ''.'' then clean_elems st xs
      else if x = ''..'' then clean_elems (tl st) xs
      else clean_elems (x # st) xs)"

definition clean_key :: "string \<Rightarrow> key" where
  "clean_key s =
     (case clean_elems [] (split_on CHR ''/'' s) of
        [] \<Rightarrow> ''/''
      | es \<Rightarrow> concat (map (\<lambda>x. CHR ''/'' # x) es))"

definition to_multihash :: "key \<Rightarrow> key option" where
  "to_multihash k = (if has_prefix ''/v1-'' k then Some (''/mh-'' @ drop 4 k) else Some k)"

definition env_ok :: env8 where
  "env_ok = \<lparr>new_key = clean_key, query_fails = False, get_fails = (\<lambda>k. False),
     put_fails = (\<lambda>k. False), delete_fails = (\<lambda>k. False),
     write_version_fails = False, torn_version = [],
     key_map = to_multihash, lock_busy = False, open_fails = False, stat_fails = False,
     open_backup_fails = False, writer_drained = 0, read_error = None,
     close_backup_fails = False, remove_fails = False\<rparr>"

definition repo_a :: state8 where
  "repo_a = \<lparr>version = ''8'', trace = [],
      blocks = [(''/v1-abc'', [1, 2, 3]), (''/mh-zzz'', [9])],
      backup = None, held = False, wbuf = [], logs = []\<rparr>"

definition env1_ok :: env1 where
  "env1_ok = \<lparr>new_key = clean_key, query_fails = False, get_fails = (\<lambda>k. False),
     put_fails = (\<lambda>k. False), delete_fails = (\<lambda>k. False),
     write_version_fails = False, torn_version = [],
     mkdir_fails = False, rmdir_fails = False, ldb_open_fails = False,
     mkdir_blocks_fails = False, flatfs_new_fails = False, rename_fails = False,
     remove_all_fails = False\<rparr>"

definition repo1_a :: state1 where
  "repo1_a = \<lparr>version = ''1'', trace = [], repo_path = ''/home/u/.go-ipfs'',
      ldb = [(''/b/k1'', [1]), (''/b/k2'', [2]), (''/b/k3'', [3]), (''/b/k4'', [4]),
             (''/b/k5'', [5])],
      flat = []\<rparr>"

text \<open>
  A source store with two keys under the prefix \<open>/b\<close> that the transfer to the empty
  prefix sends to the same destination key, and a repository at version 8 whose backup
  file already holds a record, as an earlier interrupted run leaves it.
\<close>

definition src_collide :: store where
  "src_collide = [(''/b/x'', [1]), (''/bx'', [2])]"

definition repo_rerun :: state8 where
  "repo_rerun = repo_a\<lparr>backup := Some (''/v1-zzz,/mh-zzz'' @ [CHR 0x0A])\<rparr>"

text \<open>
  Two repositories at version 8: one where the new key of \<open>/v1-abc\<close> is taken already,
  one whose only key holds a comma.
\<close>

definition repo_taken :: state8 where
  "repo_taken = repo_a\<lparr>blocks := [(''/v1-abc'', [1]), (''/mh-abc'', [2])]\<rparr>"

definition repo_comma :: state8 where
  "repo_comma = repo_a\<lparr>blocks := [(''/v1-a,b'', [1])]\<rparr>"

text \<open>
  A migrated repository whose backup file holds two swap records and, between them, a
  line without comma.
\<close>

definition backup_m :: string where
  "backup_m = ''/v1-abc,/mh-abc'' @ [CHR 0x0A] @ ''bad line'' @ [CHR 0x0A]
              @ ''/v1-def,/mh-def'' @ [CHR 0x0A]"

definition repo_m :: state8 where
  "repo_m = \<lparr>version = ''9'', trace = [],
      blocks = [(''/mh-zzz'', [9]), (''/mh-abc'', [1, 2, 3]), (''/mh-def'', [4])],
      backup = Some backup_m, held = False, wbuf = [], logs = []\<rparr>"

section \<open>Reading the backup file, in the words of the claims\<close>



section \<open>Bulk transfer and round trip, in the words of the claims\<close>









section \<open>Unfolding the steps\<close>

lemmas apply_defs = Apply_def Apply_body_def Apply_check_def Apply_open_def Apply_backup_def
  Apply_swap_def Apply_commit_def CheckVersion_def WriteVersion_def ev_def logmsg_def
  bufio_Flush_def Let_def

lemmas revert_defs = Revert_def Revert_body_def Revert_check_def Revert_open_def
  Revert_backup_def Revert_swaps_def Revert_commit_def CheckVersion_def WriteVersion_def
  ev_def logmsg_def bufio_Flush_def Let_def read_data_def read_fails_def

lemmas mg1_defs = Apply1_def Revert1_def sanityChecks_def transferBlocksToFlatDB_def
  transferBlocksFromFlatDB_def moveIpfsDir_def reverseIpfsDir_def CheckVersion_def
  WriteVersion_def ev_def Let_def

lemmas store_defs = ds_query_def ds_get_def ds_put_def ds_delete_def has_prefix_def
  transferBlocks_def swap_entry_def CidSwapper_Run_def

lemmas concrete_defs = env_ok_def repo_a_def env1_ok_def repo1_a_def clean_key_def
  to_multihash_def repo_m_def backup_m_def src_collide_def repo_rerun_def

lemmas text_defs = writer_def file_bytes_def swap_line_def bufSize_def ScanLines_def
  dropCR_def parse_line_def

section \<open>Facts about the buffered writer\<close>

text \<open>
  Whatever is written through the buffered writer is, in order, in the file or still in
  the buffer; the buffer never holds more than its size.
\<close>

lemma bufio_Write_bytes:
  "bufio_Write fb p = fb' \<Longrightarrow> fst fb' @ snd fb' = fst fb @ snd fb @ p"
proof (induction fb p arbitrary: fb' rule: bufio_Write.induct)
  case (1 fl buf p)
  show ?case
  proof (cases "length p > bufSize - length buf \<and> buf \<noteq> []")
    case True
    then have "bufio_Write (fl, buf) p
        = bufio_Write (fl @ buf @ take (bufSize - length buf) p, [])
            (drop (bufSize - length buf) p)"
      by (simp add: Let_def)
    with "1.prems"
    have "bufio_Write (fl @ buf @ take (bufSize - length buf) p, [])
            (drop (bufSize - length buf) p) = fb'"
      by simp
    from "1.IH" [OF _ _ refl this] True show ?thesis by simp
  next
    case False
    with "1.prems" show ?thesis by (auto split: if_splits)
  qed
qed

lemma bufio_Write_bound:
  "bufio_Write fb p = fb' \<Longrightarrow> length (snd fb) \<le> bufSize \<Longrightarrow> length (snd fb') \<le> bufSize"
proof (induction fb p arbitrary: fb' rule: bufio_Write.induct)
  case (1 fl buf p)
  show ?case
  proof (cases "length p > bufSize - length buf \<and> buf \<noteq> []")
    case True
    then have "bufio_Write (fl, buf) p
        = bufio_Write (fl @ buf @ take (bufSize - length buf) p, [])
            (drop (bufSize - length buf) p)"
      by (simp add: Let_def)
    with "1.prems"
    have "bufio_Write (fl @ buf @ take (bufSize - length buf) p, [])
            (drop (bufSize - length buf) p) = fb'"
      by simp
    from "1.IH" [OF _ _ refl this] True show ?thesis by simp
  next
    case False
    with "1.prems" show ?thesis by (auto split: if_splits)
  qed
qed

lemma foldl_bufio_Write_bytes:
  "fst (foldl bufio_Write fb ps) @ snd (foldl bufio_Write fb ps) = fst fb @ snd fb @ concat ps"
proof (induction ps arbitrary: fb)
  case Nil
  show ?case by simp
next
  case (Cons p ps)
  have "fst (bufio_Write fb p) @ snd (bufio_Write fb p) = fst fb @ snd fb @ p"
    by (rule bufio_Write_bytes) simp
  with Cons [of "bufio_Write fb p"] show ?case by simp
qed

lemma foldl_bufio_Write_bound:
  "length (snd fb) \<le> bufSize \<Longrightarrow> length (snd (foldl bufio_Write fb ps)) \<le> bufSize"
proof (induction ps arbitrary: fb)
  case Nil
  then show ?case by simp
next
  case (Cons p ps)
  have "length (snd (bufio_Write fb p)) \<le> bufSize"
    by (rule bufio_Write_bound [OF refl Cons.prems])
  with Cons.IH [of "bufio_Write fb p"] show ?case by simp
qed

lemma writer_fields [simp]:
  "trace (writer sws st) = trace st"
  "version (writer sws st) = version st"
  "blocks (writer sws st) = blocks st"
  "held (writer sws st) = held st"
  "logs (writer sws st) = logs st"
  by (auto simp: writer_def split: prod.splits)

lemma writer_backup [simp]: "backup (writer sws st) = Some (file_bytes (writer sws st))"
  by (auto simp: writer_def file_bytes_def split: prod.splits)

lemma writer_bytes:
  "file_bytes (writer sws st) @ wbuf (writer sws st)
     = file_bytes st @ wbuf st @ concat (map swap_line sws)"
  using foldl_bufio_Write_bytes [of "(file_bytes st, wbuf st)" "map swap_line sws"]
  by (auto simp: writer_def file_bytes_def split: prod.splits)

lemma writer_bound:
  "length (wbuf st) \<le> bufSize \<Longrightarrow> length (wbuf (writer sws st)) \<le> bufSize"
  using foldl_bufio_Write_bound [of "(file_bytes st, wbuf st)" "map swap_line sws"]
  by (auto simp: writer_def split: prod.splits)

lemma file_bytes_updates [simp]:
  "file_bytes (st\<lparr>trace := t\<rparr>) = file_bytes st"
  "file_bytes (st\<lparr>version := v\<rparr>) = file_bytes st"
  "file_bytes (st\<lparr>logs := l\<rparr>) = file_bytes st"
  "file_bytes (st\<lparr>held := h\<rparr>) = file_bytes st"
  "file_bytes (st\<lparr>blocks := b\<rparr>) = file_bytes st"
  "file_bytes (st\<lparr>wbuf := w\<rparr>) = file_bytes st"
  "file_bytes (st\<lparr>backup := Some c\<rparr>) = c"
  "file_bytes (st\<lparr>backup := None\<rparr>) = []"
  by (simp_all add: file_bytes_def)

section \<open>Facts about the swapper and the scanner\<close>

text \<open>
  The swapper and the scanner read only the datastore part of the environment.
\<close>

lemma swap_entry_remove_fails [simp]:
  "swap_entry (e\<lparr>remove_fails := b\<rparr>) s old new = swap_entry e s old new"
  by (auto simp: swap_entry_def ds_get_def ds_put_def ds_delete_def split: sum.splits option.splits)

lemma swap_entry_read_error [simp]:
  "swap_entry (e\<lparr>read_error := b\<rparr>) s old new = swap_entry e s old new"
  by (auto simp: swap_entry_def ds_get_def ds_put_def ds_delete_def split: sum.splits option.splits)

lemma CidSwapper_Revert_remove_fails [simp]:
  "CidSwapper_Revert (e\<lparr>remove_fails := b\<rparr>) sws s = CidSwapper_Revert e sws s"
  by (induction sws arbitrary: s) (auto split: prod.splits option.splits)

lemma CidSwapper_Revert_read_error [simp]:
  "CidSwapper_Revert (e\<lparr>read_error := b\<rparr>) sws s = CidSwapper_Revert e sws s"
  by (induction sws arbitrary: s) (auto split: prod.splits option.splits)

lemma scan_records_remove_fails [simp]:
  "scan_records (e\<lparr>remove_fails := b\<rparr>) ls = scan_records e ls"
  by (induction ls) (auto simp: parse_line_def Let_def split: prod.splits option.splits)

lemma scan_records_read_error [simp]:
  "scan_records (e\<lparr>read_error := b\<rparr>) ls = scan_records e ls"
  by (induction ls) (auto simp: parse_line_def Let_def split: prod.splits option.splits)


section \<open>Facts about stores, swaps and the backup lines\<close>























section \<open>The repo lock\<close>

text \<open>
  C7 (as amended). \<open>Apply\<close> and \<open>Revert\<close> of the 8-to-9 step take the repo lock before
  anything else: when another process holds it they return the lock error having made
  no call; otherwise the trace starts with the lock, the version check comes right
  after it, the lock is still held when the body returns, and the last call is the
  unlock, on every path, so that no run ends holding the lock. \<open>Apply\<close> and \<open>Revert\<close>
  of the 1-to-2 step take no lock at all.
\<close>

theorem lock_scope:
  "held (snd (Apply e st)) = False \<and> held (snd (Revert e st)) = False
   \<and> (lock_busy e \<longrightarrow>
         fst (Apply e st) = Some LockError \<and> trace (snd (Apply e st)) = []
       \<and> fst (Revert e st) = Some LockError \<and> trace (snd (Revert e st)) = [])
   \<and> (\<not> lock_busy e \<longrightarrow>
         held (snd (snd (Apply_body e st))) \<and> held (snd (snd (Revert_body e st)))
       \<and> (\<exists>mid. trace (snd (Apply e st)) = EvLock # EvCheckVersion ''8'' # mid @ [EvUnlock]
              \<and> EvLock \<notin> set mid \<and> EvUnlock \<notin> set mid
              \<and> (\<forall>v. EvCheckVersion v \<notin> set mid))
       \<and> (\<exists>mid. trace (snd (Revert e st)) = EvLock # EvCheckVersion ''9'' # mid @ [EvUnlock]
              \<and> EvLock \<notin> set mid \<and> EvUnlock \<notin> set mid
              \<and> (\<forall>v. EvCheckVersion v \<notin> set mid)))
   \<and> EvLock \<notin> set (trace (snd (Apply1 e1 st1)))
   \<and> EvLock \<notin> set (trace (snd (Revert1 e1 st1)))"
proof -
  have a: "held (snd (Apply e st)) = False"
    by (auto simp: apply_defs split: prod.splits option.splits if_splits)
  have b: "held (snd (Revert e st)) = False"
    by (auto simp: revert_defs split: prod.splits option.splits if_splits)
  have c: "lock_busy e \<longrightarrow> fst (Apply e st) = Some LockError \<and> trace (snd (Apply e st)) = []"
    by (simp add: apply_defs)
  have d: "lock_busy e \<longrightarrow> fst (Revert e st) = Some LockError \<and> trace (snd (Revert e st)) = []"
    by (simp add: revert_defs)
  have f: "\<not> lock_busy e \<longrightarrow> held (snd (snd (Apply_body e st)))"
    by (auto simp: apply_defs split: prod.splits option.splits if_splits)
  have g: "\<not> lock_busy e \<longrightarrow> held (snd (snd (Revert_body e st)))"
    by (auto simp: revert_defs split: prod.splits option.splits if_splits)
  have h: "\<not> lock_busy e \<longrightarrow>
      (\<exists>mid. trace (snd (Apply e st)) = EvLock # EvCheckVersion ''8'' # mid @ [EvUnlock]
         \<and> EvLock \<notin> set mid \<and> EvUnlock \<notin> set mid \<and> (\<forall>v. EvCheckVersion v \<notin> set mid))"
    by (auto simp: apply_defs split: prod.splits option.splits if_splits)
  have i: "\<not> lock_busy e \<longrightarrow>
      (\<exists>mid. trace (snd (Revert e st)) = EvLock # EvCheckVersion ''9'' # mid @ [EvUnlock]
         \<and> EvLock \<notin> set mid \<and> EvUnlock \<notin> set mid \<and> (\<forall>v. EvCheckVersion v \<notin> set mid))"
    by (auto simp: revert_defs split: prod.splits option.splits if_splits)
  have j: "EvLock \<notin> set (trace (snd (Apply1 e1 st1)))"
    by (auto simp: mg1_defs split: prod.splits option.splits if_splits)
  have k: "EvLock \<notin> set (trace (snd (Revert1 e1 st1)))"
    by (auto simp: mg1_defs split: prod.splits option.splits if_splits)
  from a b c d f g h i j k show ?thesis by blast
qed

theorem lock_scope_witness:
  "\<not> lock_busy env_ok \<and> held (snd (snd (Apply_body env_ok repo_a)))
   \<and> held (snd (Apply env_ok repo_a)) = False
   \<and> lock_busy (env_ok\<lparr>lock_busy := True\<rparr>)
   \<and> trace (snd (Revert (env_ok\<lparr>lock_busy := True\<rparr>) repo_a)) = []"
  using lock_scope [of env_ok repo_a] lock_scope [of "env_ok\<lparr>lock_busy := True\<rparr>" repo_a]
  by (simp add: env_ok_def)

text \<open>
  C7 as stated fails on the 1-to-2 step: its \<open>Apply\<close> runs from the version check to
  the version write, and succeeds, without ever taking the lock.
\<close>

theorem no_lock_in_1_to_2:
  "trace (snd (Apply1 env1_ok repo1_a))
     = [EvCheckVersion ''1'', EvSanityChecks, EvTransfer, EvMoveDir, EvWriteVersion ''2'']
   \<and> fst (Apply1 env1_ok repo1_a) = None
   \<and> EvLock \<notin> set (trace (snd (Apply1 env1_ok repo1_a)))"
  by (simp add: mg1_defs store_defs concrete_defs)

section \<open>The version guard\<close>

text \<open>
  C3. When the persisted version is not the one the step starts from (\<open>8\<close> for
  \<open>Apply\<close>, so also when it is already \<open>9\<close>; \<open>9\<close> for \<open>Revert\<close>), the step returns an
  error: the version mismatch, or the lock error when the lock could not be taken
  first. The store is never opened, the swapper never runs, and blocks, backup file and
  version marker are what they were.
\<close>

theorem version_guard:
  "(version st \<noteq> ''8'' \<longrightarrow>
      fst (Apply e st)
        = Some (if lock_busy e then LockError else VersionMismatch ''8'' (version st))
    \<and> EvOpenStore \<notin> set (trace (snd (Apply e st)))
    \<and> EvRun \<notin> set (trace (snd (Apply e st)))
    \<and> blocks (snd (Apply e st)) = blocks st
    \<and> backup (snd (Apply e st)) = backup st
    \<and> version (snd (Apply e st)) = version st)
   \<and> (version st \<noteq> ''9'' \<longrightarrow>
      fst (Revert e st)
        = Some (if lock_busy e then LockError else VersionMismatch ''9'' (version st))
    \<and> EvOpenStore \<notin> set (trace (snd (Revert e st)))
    \<and> EvRevert \<notin> set (trace (snd (Revert e st)))
    \<and> blocks (snd (Revert e st)) = blocks st
    \<and> backup (snd (Revert e st)) = backup st
    \<and> version (snd (Revert e st)) = version st)"
  by (simp add: apply_defs revert_defs)

theorem version_guard_witness:
  "version (repo_a\<lparr>version := ''9''\<rparr>) \<noteq> ''8''
   \<and> fst (Apply env_ok (repo_a\<lparr>version := ''9''\<rparr>)) = Some (VersionMismatch ''8'' ''9'')
   \<and> blocks (snd (Apply env_ok (repo_a\<lparr>version := ''9''\<rparr>))) = blocks repo_a
   \<and> version repo_a \<noteq> ''9''
   \<and> fst (Revert env_ok repo_a) = Some (VersionMismatch ''9'' ''8'')"
  using version_guard [of "repo_a\<lparr>version := ''9''\<rparr>" env_ok] version_guard [of repo_a env_ok]
  by (simp add: env_ok_def repo_a_def)

text \<open>
  C4. When \<open>Apply\<close> returns an error other than the failure of the version write
  itself, the version marker is what it was before the call (so still the \<open>from\<close>
  value where it was that). \<open>WriteVersion\<close> is reached only with the \<open>to\<close> value, and
  only after the transform has completed: in the 8-to-9 step after the swapper has
  returned without error and the writer has been awaited, in the 1-to-2 step after the
  blocks have been transferred without error and the directory has been moved.
\<close>

theorem version_kept_on_early_error:
  "(fst (Apply e st) = Some er \<and> er \<noteq> VersionWriteError
      \<longrightarrow> version (snd (Apply e st)) = version st)
   \<and> (EvWriteVersion v \<in> set (trace (snd (Apply e st)))
      \<longrightarrow> v = ''9'' \<and> version st = ''8''
        \<and> fst (CidSwapper_Run e (blocks st)) = None
        \<and> blocks (snd (Apply e st)) = fst (snd (CidSwapper_Run e (blocks st)))
        \<and> take 8 (trace (snd (Apply e st)))
            = [EvLock, EvCheckVersion ''8'', EvOpenStore, EvStat, EvOpenBackup, EvRun,
               EvAwaitWriter, EvWriteVersion ''9''])
   \<and> (fst (Apply1 e1 st1) = Some er1 \<and> er1 \<noteq> VersionWriteError
      \<longrightarrow> version (snd (Apply1 e1 st1)) = version st1)
   \<and> (EvWriteVersion v1 \<in> set (trace (snd (Apply1 e1 st1)))
      \<longrightarrow> v1 = ''2'' \<and> version st1 = ''1''
        \<and> fst (transferBlocks e1 (ldb st1) (flat st1) ''/b/'' []) = None
        \<and> ldb (snd (Apply1 e1 st1))
            = fst (snd (transferBlocks e1 (ldb st1) (flat st1) ''/b/'' []))
        \<and> flat (snd (Apply1 e1 st1))
            = snd (snd (transferBlocks e1 (ldb st1) (flat st1) ''/b/'' []))
        \<and> repo_path (snd (Apply1 e1 st1))
            = replace_first ''.go-ipfs'' ''.ipfs'' (repo_path st1)
        \<and> trace (snd (Apply1 e1 st1))
            = [EvCheckVersion ''1'', EvSanityChecks, EvTransfer, EvMoveDir,
               EvWriteVersion ''2''])"
proof -
  have a: "fst (Apply e st) = Some er \<and> er \<noteq> VersionWriteError
      \<longrightarrow> version (snd (Apply e st)) = version st"
    by (auto simp: apply_defs split: prod.splits option.splits if_splits)
  have b: "EvWriteVersion v \<in> set (trace (snd (Apply e st)))
      \<longrightarrow> v = ''9'' \<and> version st = ''8''
        \<and> fst (CidSwapper_Run e (blocks st)) = None
        \<and> blocks (snd (Apply e st)) = fst (snd (CidSwapper_Run e (blocks st)))
        \<and> take 8 (trace (snd (Apply e st)))
            = [EvLock, EvCheckVersion ''8'', EvOpenStore, EvStat, EvOpenBackup, EvRun,
               EvAwaitWriter, EvWriteVersion ''9'']"
    by (auto simp: apply_defs split: prod.splits option.splits if_splits)
  have c: "fst (Apply1 e1 st1) = Some er1 \<and> er1 \<noteq> VersionWriteError
      \<longrightarrow> version (snd (Apply1 e1 st1)) = version st1"
    by (auto simp: mg1_defs split: prod.splits option.splits if_splits)
  have d: "EvWriteVersion v1 \<in> set (trace (snd (Apply1 e1 st1)))
      \<longrightarrow> v1 = ''2'' \<and> version st1 = ''1''
        \<and> fst (transferBlocks e1 (ldb st1) (flat st1) ''/b/'' []) = None
        \<and> ldb (snd (Apply1 e1 st1))
            = fst (snd (transferBlocks e1 (ldb st1) (flat st1) ''/b/'' []))
        \<and> flat (snd (Apply1 e1 st1))
            = snd (snd (transferBlocks e1 (ldb st1) (flat st1) ''/b/'' []))
        \<and> repo_path (snd (Apply1 e1 st1))
            = replace_first ''.go-ipfs'' ''.ipfs'' (repo_path st1)
        \<and> trace (snd (Apply1 e1 st1))
            = [EvCheckVersion ''1'', EvSanityChecks, EvTransfer, EvMoveDir,
               EvWriteVersion ''2'']"
    by (auto simp: mg1_defs split: prod.splits option.splits if_splits)
  from a b c d show ?thesis by blast
qed

theorem version_kept_on_early_error_witness:
  "fst (Apply (env_ok\<lparr>open_backup_fails := True\<rparr>) repo_a) = Some BackupOpenError
   \<and> BackupOpenError \<noteq> VersionWriteError
   \<and> version (snd (Apply (env_ok\<lparr>open_backup_fails := True\<rparr>) repo_a)) = ''8''
   \<and> fst (Apply1 (env1_ok\<lparr>rename_fails := True\<rparr>) repo1_a) = Some RenameError
   \<and> RenameError \<noteq> VersionWriteError
   \<and> version (snd (Apply1 (env1_ok\<lparr>rename_fails := True\<rparr>) repo1_a)) = ''1''
   \<and> EvWriteVersion ''9'' \<in> set (trace (snd (Apply env_ok repo_a)))
   \<and> fst (CidSwapper_Run env_ok (blocks repo_a)) = None
   \<and> EvWriteVersion ''2'' \<in> set (trace (snd (Apply1 env1_ok repo1_a)))
   \<and> fst (transferBlocks env1_ok (ldb repo1_a) (flat repo1_a) ''/b/'' []) = None"
proof -
  have a: "fst (Apply (env_ok\<lparr>open_backup_fails := True\<rparr>) repo_a) = Some BackupOpenError"
    by (simp add: apply_defs store_defs concrete_defs)
  have b: "fst (Apply1 (env1_ok\<lparr>rename_fails := True\<rparr>) repo1_a) = Some RenameError"
    by (simp add: mg1_defs store_defs concrete_defs)
  have c: "EvWriteVersion ''9'' \<in> set (trace (snd (Apply env_ok repo_a)))"
    by (simp add: apply_defs store_defs concrete_defs text_defs)
  have d: "EvWriteVersion ''2'' \<in> set (trace (snd (Apply1 env1_ok repo1_a)))"
    by (simp add: mg1_defs store_defs concrete_defs)
  from a b c d
    version_kept_on_early_error [of "env_ok\<lparr>open_backup_fails := True\<rparr>" repo_a
      BackupOpenError "''9''" "env1_ok\<lparr>rename_fails := True\<rparr>" repo1_a RenameError "''2''"]
    version_kept_on_early_error [of env_ok repo_a BackupOpenError
      "''9''" env1_ok repo1_a RenameError "''2''"]
  show ?thesis
    by (simp add: repo_a_def repo1_a_def)
qed

section \<open>Log before commit\<close>

text \<open>
  C2 (as amended). Whenever \<open>Apply\<close> reaches the version write, the swapper has
  returned without error and the writer goroutine has been awaited just before: every
  emitted record has by then been printed, in order, into the buffered writer, so that
  the bytes of the file followed by the bytes still in the buffer are the old contents
  followed by all the record lines. The buffer may still hold up to 4096 of these bytes
  when the version is written: the final flush is deferred, it runs after the version
  write, when \<open>Apply\<close> returns, and only then does the file hold every record.
\<close>

theorem flush_after_version_write:
  "EvWriteVersion v \<in> set (trace (snd (snd (Apply_body e st)))) \<longrightarrow>
     fst (CidSwapper_Run e (blocks st)) = None
   \<and> trace (snd (snd (Apply_body e st)))
       = [EvLock, EvCheckVersion ''8'', EvOpenStore, EvStat, EvOpenBackup, EvRun,
          EvAwaitWriter, EvWriteVersion ''9'']
   \<and> fst (snd (Apply_body e st)) = [DFlush, DCloseBackup, DCloseStore, DUnlock]
   \<and> file_bytes (snd (snd (Apply_body e st))) @ wbuf (snd (snd (Apply_body e st)))
       = file_bytes st @ concat (map swap_line (snd (snd (CidSwapper_Run e (blocks st)))))
   \<and> length (wbuf (snd (snd (Apply_body e st)))) \<le> bufSize
   \<and> trace (snd (Apply e st))
       = [EvLock, EvCheckVersion ''8'', EvOpenStore, EvStat, EvOpenBackup, EvRun,
          EvAwaitWriter, EvWriteVersion ''9'', EvFlush, EvCloseBackup, EvCloseStore, EvUnlock]
   \<and> backup (snd (Apply e st))
       = Some (file_bytes st @ concat (map swap_line (snd (snd (CidSwapper_Run e (blocks st))))))
   \<and> wbuf (snd (Apply e st)) = []"
proof
  assume w: "EvWriteVersion v \<in> set (trace (snd (snd (Apply_body e st))))"
  obtain r s' emitted where run: "CidSwapper_Run e (blocks st) = (r, s', emitted)"
    by (cases "CidSwapper_Run e (blocks st)") auto
  from w run have ok: "\<not> lock_busy e" "version st = ''8''" "\<not> open_fails e" "\<not> stat_fails e"
      "\<not> open_backup_fails e" "r = None"
    by (auto simp: apply_defs split: prod.splits option.splits if_splits)
  note wb = writer_bytes writer_bound
  show "fst (CidSwapper_Run e (blocks st)) = None
   \<and> trace (snd (snd (Apply_body e st)))
       = [EvLock, EvCheckVersion ''8'', EvOpenStore, EvStat, EvOpenBackup, EvRun,
          EvAwaitWriter, EvWriteVersion ''9'']
   \<and> fst (snd (Apply_body e st)) = [DFlush, DCloseBackup, DCloseStore, DUnlock]
   \<and> file_bytes (snd (snd (Apply_body e st))) @ wbuf (snd (snd (Apply_body e st)))
       = file_bytes st @ concat (map swap_line (snd (snd (CidSwapper_Run e (blocks st)))))
   \<and> length (wbuf (snd (snd (Apply_body e st)))) \<le> bufSize
   \<and> trace (snd (Apply e st))
       = [EvLock, EvCheckVersion ''8'', EvOpenStore, EvStat, EvOpenBackup, EvRun,
          EvAwaitWriter, EvWriteVersion ''9'', EvFlush, EvCloseBackup, EvCloseStore, EvUnlock]
   \<and> backup (snd (Apply e st))
       = Some (file_bytes st @ concat (map swap_line (snd (snd (CidSwapper_Run e (blocks st))))))
   \<and> wbuf (snd (Apply e st)) = []"
    using ok run
    by (simp add: apply_defs writer_bytes writer_bound)
qed

theorem flush_after_version_write_witness:
  "EvWriteVersion ''9'' \<in> set (trace (snd (snd (Apply_body env_ok repo_a))))
   \<and> backup (snd (Apply env_ok repo_a)) = Some (''/v1-abc,/mh-abc'' @ [CHR 0x0A])
   \<and> wbuf (snd (Apply env_ok repo_a)) = []"
proof -
  have a: "EvWriteVersion ''9'' \<in> set (trace (snd (snd (Apply_body env_ok repo_a))))"
    by (simp add: apply_defs store_defs concrete_defs)
  have b: "snd (snd (CidSwapper_Run env_ok (blocks repo_a))) = [\<lparr>Old = ''/v1-abc'', New = ''/mh-abc''\<rparr>]"
    by (simp add: store_defs concrete_defs)
  from a b flush_after_version_write [of "''9''" env_ok repo_a]
  show ?thesis
    by (simp add: swap_line_def repo_a_def file_bytes_def)
qed

text \<open>
  C2 as stated fails: with one short record, \<open>Apply\<close> reaches its \<open>return\<close> with the
  version marker already at \<open>9\<close> while the backup file is still empty, the record
  waiting in the buffer for the deferred flush.
\<close>

theorem version_written_before_flush:
  "fst (Apply_body env_ok repo_a) = None
   \<and> version (snd (snd (Apply_body env_ok repo_a))) = ''9''
   \<and> backup (snd (snd (Apply_body env_ok repo_a))) = Some []
   \<and> wbuf (snd (snd (Apply_body env_ok repo_a))) = ''/v1-abc,/mh-abc'' @ [CHR 0x0A]
   \<and> EvFlush \<notin> set (trace (snd (snd (Apply_body env_ok repo_a))))"
  by (simp add: apply_defs store_defs concrete_defs text_defs)

section \<open>Revert: malformed lines, commit order, failures that are only logged\<close>



text \<open>
  C8 (as amended). \<open>Revert\<close> reaches the version write only with the value \<open>8\<close>, and
  only after the swapper has returned without error on every record the scanner
  delivered (the records of the bytes it could read: all of the file, or, on a read
  error, a prefix of it); the store is then the swapper's result. The backup file is
  removed only after the version write and the close of the file have succeeded, so
  only in a run that returns success with the marker at \<open>8\<close>; in every other run the
  file is what it was.
\<close>

theorem revert_commit_order:
  "(EvWriteVersion v \<in> set (trace (snd (Revert e st))) \<longrightarrow>
       v = ''8'' \<and> version st = ''9'' \<and> backup st \<noteq> None
     \<and> fst (CidSwapper_Revert e
           (fst (scan_records e (ScanLines (read_data e (the (backup st)))))) (blocks st)) = None
     \<and> blocks (snd (Revert e st))
         = snd (CidSwapper_Revert e
             (fst (scan_records e (ScanLines (read_data e (the (backup st)))))) (blocks st))
     \<and> take 6 (trace (snd (Revert e st)))
         = [EvLock, EvCheckVersion ''9'', EvOpenStore, EvOpenBackup, EvRevert,
            EvWriteVersion ''8''])
   \<and> (EvRemoveBackup \<in> set (trace (snd (Revert e st))) \<longrightarrow>
       fst (Revert e st) = None \<and> version (snd (Revert e st)) = ''8''
     \<and> trace (snd (Revert e st))
         = [EvLock, EvCheckVersion ''9'', EvOpenStore, EvOpenBackup, EvRevert,
            EvWriteVersion ''8'', EvCloseBackup, EvRemoveBackup, EvCloseStore, EvUnlock])
   \<and> (backup st \<noteq> None \<and> backup (snd (Revert e st)) = None \<longrightarrow>
       fst (Revert e st) = None \<and> version (snd (Revert e st)) = ''8''
     \<and> EvRemoveBackup \<in> set (trace (snd (Revert e st))))
   \<and> (backup (snd (Revert e st)) \<noteq> None \<longrightarrow> backup (snd (Revert e st)) = backup st)"
proof -
  have a: "EvWriteVersion v \<in> set (trace (snd (Revert e st))) \<longrightarrow>
       v = ''8'' \<and> version st = ''9'' \<and> backup st \<noteq> None
     \<and> fst (CidSwapper_Revert e
           (fst (scan_records e (ScanLines (read_data e (the (backup st)))))) (blocks st)) = None
     \<and> blocks (snd (Revert e st))
         = snd (CidSwapper_Revert e
             (fst (scan_records e (ScanLines (read_data e (the (backup st)))))) (blocks st))
     \<and> take 6 (trace (snd (Revert e st)))
         = [EvLock, EvCheckVersion ''9'', EvOpenStore, EvOpenBackup, EvRevert,
            EvWriteVersion ''8'']"
    by (auto simp: revert_defs split: prod.splits option.splits if_splits)
  have b: "EvRemoveBackup \<in> set (trace (snd (Revert e st))) \<longrightarrow>
       fst (Revert e st) = None \<and> version (snd (Revert e st)) = ''8''
     \<and> trace (snd (Revert e st))
         = [EvLock, EvCheckVersion ''9'', EvOpenStore, EvOpenBackup, EvRevert,
            EvWriteVersion ''8'', EvCloseBackup, EvRemoveBackup, EvCloseStore, EvUnlock]"
    by (auto simp: revert_defs split: prod.splits option.splits if_splits)
  have c: "backup st \<noteq> None \<and> backup (snd (Revert e st)) = None \<longrightarrow>
       fst (Revert e st) = None \<and> version (snd (Revert e st)) = ''8''
     \<and> EvRemoveBackup \<in> set (trace (snd (Revert e st)))"
    by (auto simp: revert_defs split: prod.splits option.splits if_splits)
  have d: "backup (snd (Revert e st)) \<noteq> None \<longrightarrow> backup (snd (Revert e st)) = backup st"
    by (auto simp: revert_defs split: prod.splits option.splits if_splits)
  from a b c d show ?thesis by blast
qed

theorem revert_commit_order_witness:
  "EvWriteVersion ''8'' \<in> set (trace (snd (Revert env_ok repo_m)))
   \<and> EvRemoveBackup \<in> set (trace (snd (Revert env_ok repo_m)))
   \<and> backup repo_m \<noteq> None \<and> backup (snd (Revert env_ok repo_m)) = None
   \<and> fst (Revert env_ok repo_m) = None \<and> version (snd (Revert env_ok repo_m)) = ''8''
   \<and> backup (snd (Revert (env_ok\<lparr>open_fails := True\<rparr>) repo_m)) \<noteq> None
   \<and> backup (snd (Revert (env_ok\<lparr>open_fails := True\<rparr>) repo_m)) = Some backup_m"
proof -
  have a: "EvWriteVersion ''8'' \<in> set (trace (snd (Revert env_ok repo_m)))
      \<and> EvRemoveBackup \<in> set (trace (snd (Revert env_ok repo_m)))
      \<and> backup (snd (Revert env_ok repo_m)) = None"
    by (simp add: revert_defs store_defs concrete_defs text_defs repo_m_def backup_m_def)
  have b: "backup (snd (Revert (env_ok\<lparr>open_fails := True\<rparr>) repo_m)) \<noteq> None"
    by (simp add: revert_defs store_defs concrete_defs repo_m_def)
  from a b revert_commit_order [of "''8''" env_ok repo_m]
    revert_commit_order [of "''8''" "env_ok\<lparr>open_fails := True\<rparr>" repo_m]
  show ?thesis
    by (simp add: repo_m_def)
qed

text \<open>
  C8 as stated fails when reading the backup file fails part way: the version is
  reset and the file removed although the second logged swap was never undone.
\<close>

theorem version_reset_after_partial_revert:
  "EvWriteVersion ''8'' \<in> set (trace (snd (Revert (env_ok\<lparr>read_error := Some 16\<rparr>) repo_m)))
   \<and> version (snd (Revert (env_ok\<lparr>read_error := Some 16\<rparr>) repo_m)) = ''8''
   \<and> backup (snd (Revert (env_ok\<lparr>read_error := Some 16\<rparr>) repo_m)) = None
   \<and> fst (scan_records env_ok (ScanLines backup_m))
       = [\<lparr>Old = ''/v1-abc'', New = ''/mh-abc''\<rparr>, \<lparr>Old = ''/v1-def'', New = ''/mh-def''\<rparr>]
   \<and> map_of (blocks (snd (Revert (env_ok\<lparr>read_error := Some 16\<rparr>) repo_m))) ''/v1-def'' = None
   \<and> map_of (blocks (snd (Revert (env_ok\<lparr>read_error := Some 16\<rparr>) repo_m))) ''/mh-def''
       = Some [4]"
  by (simp add: revert_defs store_defs concrete_defs text_defs repo_m_def backup_m_def)

text \<open>
  C9. If \<open>Revert\<close> succeeds when removing the backup file works, then with the removal
  failing it still returns success: the failure is logged and nothing else changes, so
  the version marker is \<open>8\<close> and the backup file is still there.
\<close>

theorem remove_failure_only_logged:
  "fst (Revert (e\<lparr>remove_fails := False\<rparr>) st) = None \<longrightarrow>
     fst (Revert (e\<lparr>remove_fails := True\<rparr>) st) = None
   \<and> version (snd (Revert (e\<lparr>remove_fails := True\<rparr>) st)) = ''8''
   \<and> backup st \<noteq> None
   \<and> backup (snd (Revert (e\<lparr>remove_fails := True\<rparr>) st)) = backup st
   \<and> backup (snd (Revert (e\<lparr>remove_fails := False\<rparr>) st)) = None
   \<and> logs (snd (Revert (e\<lparr>remove_fails := True\<rparr>) st))
       = logs (snd (Revert (e\<lparr>remove_fails := False\<rparr>) st)) @ [LogRemoveFailed]
   \<and> blocks (snd (Revert (e\<lparr>remove_fails := True\<rparr>) st))
       = blocks (snd (Revert (e\<lparr>remove_fails := False\<rparr>) st))
   \<and> trace (snd (Revert (e\<lparr>remove_fails := True\<rparr>) st))
       = [EvLock, EvCheckVersion ''9'', EvOpenStore, EvOpenBackup, EvRevert,
          EvWriteVersion ''8'', EvCloseBackup, EvRemoveBackup, EvCloseStore, EvUnlock]"
  by (auto simp: revert_defs split: prod.splits option.splits if_splits)

theorem remove_failure_only_logged_witness:
  "fst (Revert (env_ok\<lparr>remove_fails := False\<rparr>) repo_m) = None
   \<and> fst (Revert (env_ok\<lparr>remove_fails := True\<rparr>) repo_m) = None
   \<and> version (snd (Revert (env_ok\<lparr>remove_fails := True\<rparr>) repo_m)) = ''8''
   \<and> backup (snd (Revert (env_ok\<lparr>remove_fails := True\<rparr>) repo_m)) = Some backup_m"
proof -
  have a: "fst (Revert (env_ok\<lparr>remove_fails := False\<rparr>) repo_m) = None"
    by (simp add: revert_defs store_defs concrete_defs text_defs repo_m_def backup_m_def)
  from a remove_failure_only_logged [of env_ok repo_m]
  show ?thesis
    by (simp add: repo_m_def)
qed

text \<open>
  C10. A read error after \<open>n\<close> bytes of the backup file is only logged: \<open>Revert\<close>
  returns what it returns on a backup file that ends after these \<open>n\<close> bytes, with the
  same store, version marker and calls, and the file is removed in the one run exactly
  when it is in the other. So when that run succeeds, the version marker is reset to
  \<open>8\<close> and the backup file is removed although only the records in the first \<open>n\<close>
  bytes were reverted.
\<close>

theorem read_error_truncates_log:
  "backup st = Some c \<and> n \<le> length c \<longrightarrow>
     fst (Revert (e\<lparr>read_error := Some n\<rparr>) st)
       = fst (Revert (e\<lparr>read_error := None\<rparr>) (st\<lparr>backup := Some (take n c)\<rparr>))
   \<and> blocks (snd (Revert (e\<lparr>read_error := Some n\<rparr>) st))
       = blocks (snd (Revert (e\<lparr>read_error := None\<rparr>) (st\<lparr>backup := Some (take n c)\<rparr>)))
   \<and> version (snd (Revert (e\<lparr>read_error := Some n\<rparr>) st))
       = version (snd (Revert (e\<lparr>read_error := None\<rparr>) (st\<lparr>backup := Some (take n c)\<rparr>)))
   \<and> trace (snd (Revert (e\<lparr>read_error := Some n\<rparr>) st))
       = trace (snd (Revert (e\<lparr>read_error := None\<rparr>) (st\<lparr>backup := Some (take n c)\<rparr>)))
   \<and> (backup (snd (Revert (e\<lparr>read_error := Some n\<rparr>) st)) = None)
       = (backup (snd (Revert (e\<lparr>read_error := None\<rparr>) (st\<lparr>backup := Some (take n c)\<rparr>)))
            = None)
   \<and> (EvRevert \<in> set (trace (snd (Revert (e\<lparr>read_error := Some n\<rparr>) st))) \<longrightarrow>
        LogScanError \<in> set (logs (snd (Revert (e\<lparr>read_error := Some n\<rparr>) st)))
      \<and> blocks (snd (Revert (e\<lparr>read_error := Some n\<rparr>) st))
          = snd (CidSwapper_Revert e (fst (scan_records e (ScanLines (take n c)))) (blocks st)))
   \<and> (fst (Revert (e\<lparr>read_error := Some n\<rparr>) st) = None \<longrightarrow>
        version (snd (Revert (e\<lparr>read_error := Some n\<rparr>) st)) = ''8''
      \<and> EvWriteVersion ''8'' \<in> set (trace (snd (Revert (e\<lparr>read_error := Some n\<rparr>) st)))
      \<and> EvRemoveBackup \<in> set (trace (snd (Revert (e\<lparr>read_error := Some n\<rparr>) st)))
      \<and> (\<not> remove_fails e \<longrightarrow> backup (snd (Revert (e\<lparr>read_error := Some n\<rparr>) st)) = None))"
  by (auto simp: revert_defs split: prod.splits option.splits if_splits)

theorem read_error_truncates_log_witness:
  "backup repo_m = Some backup_m \<and> 16 \<le> length backup_m
   \<and> fst (Revert (env_ok\<lparr>read_error := Some 16\<rparr>) repo_m) = None
   \<and> version (snd (Revert (env_ok\<lparr>read_error := Some 16\<rparr>) repo_m)) = ''8''
   \<and> backup (snd (Revert (env_ok\<lparr>read_error := Some 16\<rparr>) repo_m)) = None
   \<and> blocks (snd (Revert (env_ok\<lparr>read_error := Some 16\<rparr>) repo_m))
       = [(''/mh-zzz'', [9]), (''/mh-def'', [4]), (''/v1-abc'', [1, 2, 3])]
   \<and> LogScanError \<in> set (logs (snd (Revert (env_ok\<lparr>read_error := Some 16\<rparr>) repo_m)))"
proof -
  have a: "backup repo_m = Some backup_m \<and> 16 \<le> length backup_m"
    by (simp add: repo_m_def backup_m_def)
  have b: "Revert (env_ok\<lparr>read_error := None\<rparr>) (repo_m\<lparr>backup := Some (take 16 backup_m)\<rparr>)
      = (None, \<lparr>version = ''8'',
           trace = [EvLock, EvCheckVersion ''9'', EvOpenStore, EvOpenBackup, EvRevert,
                    EvWriteVersion ''8'', EvCloseBackup, EvRemoveBackup, EvCloseStore, EvUnlock],
           blocks = [(''/mh-zzz'', [9]), (''/mh-def'', [4]), (''/v1-abc'', [1, 2, 3])],
           backup = None, held = False, wbuf = [], logs = []\<rparr>)"
    by (simp add: revert_defs store_defs concrete_defs text_defs repo_m_def backup_m_def)
  have c: "\<not> remove_fails env_ok"
    by (simp add: env_ok_def)
  from a b c read_error_truncates_log [of repo_m backup_m 16 env_ok]
  show ?thesis
    by simp
qed

section \<open>Bulk transfer\<close>




section \<open>Round trip\<close>




text \<open>
  The other conditions are needed as well. When a new key is a key of the store
  already, its value is overwritten and lost; when a key holds a comma, its line is
  skipped as malformed and the key is never restored. Both round trips succeed.
\<close>

lemma round_trip_needs_fresh_keys:
  "fst (Apply env_ok repo_taken) = None
   \<and> fst (Revert env_ok (snd (Apply env_ok repo_taken))) = None
   \<and> map_of (blocks repo_taken) ''/mh-abc'' = Some [2]
   \<and> blocks (snd (Revert env_ok (snd (Apply env_ok repo_taken)))) = [(''/v1-abc'', [1])]"
  by (simp add: repo_taken_def apply_defs revert_defs store_defs concrete_defs text_defs)

lemma round_trip_needs_plain_keys:
  "fst (Apply env_ok repo_comma) = None
   \<and> fst (Revert env_ok (snd (Apply env_ok repo_comma))) = None
   \<and> blocks (snd (Revert env_ok (snd (Apply env_ok repo_comma)))) = [(''/mh-a,b'', [1])]
   \<and> logs (snd (Revert env_ok (snd (Apply env_ok repo_comma))))
       = [LogBadLine ''/v1-a,b,/mh-a,b'']"
  by (simp add: repo_comma_def apply_defs revert_defs store_defs concrete_defs text_defs)

end
